theory Spec2Isabelle
  imports Main
begin

section \<open>The browser, the page and the session manager\<close>

text \<open>
  The automation service of \<^verbatim>\<open>linkedin_automation.py\<close> drives one browser through
  Selenium. The browser and the web site are the environment of the program: the model
  keeps them as data. A page answers every bounded presence wait: \<open>located p b v t\<close>
  is the element \<^verbatim>\<open>WebDriverWait(driver, t).until(presence_of_element_located((b, v)))\<close>
  returns on page \<open>p\<close>, and \<open>None\<close> when the wait times out. A page also shows its
  address and its cookies. The site answers every command sent to the browser with the
  next page and, possibly, an exception (\<open>respond\<close>); a presence wait and the
  one-second sleep after the menu click send no command and leave the page as it is.
  Every command sent is appended to the driver's \<open>history\<close>, so that what an operation
  did to the browser can be read off the final state. An element carries its
  visibility: \<^verbatim>\<open>is_displayed\<close> answers from it, and raises on a stale element.
  Log output is not modelled.
\<close>

datatype By = XPATH | ID

type_synonym cookie = "string \<times> string"

datatype visibility = Visible | Hidden | Stale

record element =
  ident :: nat
  visibility :: visibility

datatype exn =
    HTTPException nat string
  | WebDriverException string
  | AttributeError

datatype command =
    Get string
  | AddCookie cookie
  | ExecuteCdp
  | Click element
  | Clear element
  | SendKeys element string
  | MoveClick element
  | AwaitUrl string nat
  | GetCookies
  | Quit

record page =
  current_url :: string
  cookies :: "cookie list"
  located :: "By \<Rightarrow> string \<Rightarrow> nat \<Rightarrow> element option"

record driver =
  page :: page
  respond :: "page \<Rightarrow> command \<Rightarrow> exn option \<times> page"
  history :: "command list"

text \<open>
  \<open>BrowserManager\<close> with the two things of the outside world it touches: the file
  \<^verbatim>\<open>cookies.json\<close> (\<open>None\<close> when it does not exist) and the browser processes of the
  machine. \<open>chrome\<close> is what \<^verbatim>\<open>uc.Chrome(...)\<close> gives when it is called: a fresh
  driver, or \<open>None\<close> when the launch raises and no process is left behind.
  \<open>processes\<close> counts the browsers launched and not yet quit; a \<^verbatim>\<open>quit\<close> that
  raises leaves its process counted.
\<close>

record manager =
  browser :: "driver option"
  cookie_file :: "cookie list option"
  processes :: nat
  chrome :: "driver option"

text \<open>The request models, and the JSON object a handler returns: status and message.\<close>

record LoginCredentials =
  email :: string
  passwd :: string

record ConnectProfile =
  profileLink :: string

record SendMessage =
  profileLink :: string
  messageText :: string

type_synonym response = "string \<times> string"

subsection \<open>Driver calls\<close>

definition perform :: "driver \<Rightarrow> command \<Rightarrow> exn option \<times> driver" where
  "perform d c =
     (case respond d (page d) c of
        (e, p) \<Rightarrow> (e, d\<lparr>page := p, history := history d @ [c]\<rparr>))"

definition is_displayed :: "element \<Rightarrow> exn + bool" where
  "is_displayed e =
     (case visibility e of
        Visible \<Rightarrow> Inr True
      | Hidden \<Rightarrow> Inr False
      | Stale \<Rightarrow> Inl (WebDriverException ''stale element reference''))"

fun starts_with :: "string \<Rightarrow> string \<Rightarrow> bool" where
  "starts_with s [] = True"
| "starts_with [] (c # cs) = False"
| "starts_with (x # xs) (c # cs) = (x = c \<and> starts_with xs cs)"

text \<open>Python's \<^verbatim>\<open>sub in s\<close> on strings.\<close>

fun str_contains :: "string \<Rightarrow> string \<Rightarrow> bool" where
  "str_contains [] sub = (sub = [])"
| "str_contains (x # xs) sub = (starts_with (x # xs) sub \<or> str_contains xs sub)"

subsection \<open>BrowserManager\<close>

definition startBrowser :: "manager \<Rightarrow> (exn + unit) \<times> manager" where
  "startBrowser s =
     (case chrome s of
        None \<Rightarrow> (Inl (HTTPException 500 ''Couldn't start the browser!''), s)
      | Some d \<Rightarrow>
          (case perform d ExecuteCdp of
             (Some e, d') \<Rightarrow>
               (Inl (HTTPException 500 ''Couldn't start the browser!''),
                s\<lparr>browser := Some d', processes := processes s + 1\<rparr>)
           | (None, d') \<Rightarrow>
               (Inr (), s\<lparr>browser := Some d', processes := processes s + 1\<rparr>)))"

text \<open>
  \<^verbatim>\<open>get_cookies\<close> is a call to the browser like any other: it can raise, and then
  nothing is written. Writing and removing the file itself always work.
\<close>

definition saveCookies :: "manager \<Rightarrow> (exn + unit) \<times> manager" where
  "saveCookies s =
     (case browser s of
        Some d \<Rightarrow>
          (case perform d GetCookies of
             (Some e, d') \<Rightarrow> (Inl e, s\<lparr>browser := Some d'\<rparr>)
           | (None, d') \<Rightarrow>
               (Inr (), s\<lparr>browser := Some d', cookie_file := Some (cookies (page d'))\<rparr>))
      | None \<Rightarrow> (Inr (), s))"

fun add_cookies :: "driver \<Rightarrow> cookie list \<Rightarrow> exn option \<times> driver" where
  "add_cookies d [] = (None, d)"
| "add_cookies d (c # cs) =
     (case perform d (AddCookie c) of
        (Some e, d') \<Rightarrow> (Some e, d')
      | (None, d') \<Rightarrow> add_cookies d' cs)"

definition loadCookies :: "manager \<Rightarrow> (exn + unit) \<times> manager" where
  "loadCookies s =
     (case (cookie_file s, browser s) of
        (Some cs, Some d) \<Rightarrow>
          (case add_cookies d cs of
             (Some e, d') \<Rightarrow> (Inl e, s\<lparr>browser := Some d'\<rparr>)
           | (None, d') \<Rightarrow> (Inr (), s\<lparr>browser := Some d'\<rparr>))
      | _ \<Rightarrow> (Inr (), s))"

definition shutdown :: "manager \<Rightarrow> (exn + unit) \<times> manager" where
  "shutdown s =
     (case browser s of
        None \<Rightarrow> (Inr (), s)
      | Some d \<Rightarrow>
          (case perform d Quit of
             (Some e, d') \<Rightarrow> (Inl e, s\<lparr>browser := Some d'\<rparr>)
           | (None, d') \<Rightarrow>
               (Inr (), s\<lparr>browser := None, processes := processes s - 1,
                           cookie_file := None\<rparr>)))"

subsection \<open>Locating elements\<close>

definition waitForElement :: "driver \<Rightarrow> By \<Rightarrow> string \<Rightarrow> nat \<Rightarrow> exn + element" where
  "waitForElement d b v timeout =
     (case located (page d) b v timeout of
        Some e \<Rightarrow> Inr e
      | None \<Rightarrow> Inl (HTTPException 404 (''Element '' @ v @ '' not found'')))"

definition possible_selectors :: "string list" where
  "possible_selectors =
     [''//button[contains(@aria-label, 'Invite') and contains(@aria-label, 'to connect')]'',
      ''//button[contains(text(), 'Connect')]'',
      ''//button[contains(@class, 'connect-button')]'']"

text \<open>
  The \<^verbatim>\<open>for selector in possible_selectors\<close> loop: a wait that fails, a button that
  is not displayed and an \<^verbatim>\<open>is_displayed\<close> that raises all go on to the next selector.
\<close>

fun try_selectors :: "driver \<Rightarrow> string list \<Rightarrow> element option" where
  "try_selectors d [] = None"
| "try_selectors d (selector # rest) =
     (case waitForElement d XPATH selector 10 of
        Inl _ \<Rightarrow> try_selectors d rest
      | Inr button \<Rightarrow>
          (case is_displayed button of
             Inr True \<Rightarrow> Some button
           | Inr False \<Rightarrow> try_selectors d rest
           | Inl _ \<Rightarrow> try_selectors d rest))"

definition more_actions :: string where
  "more_actions = ''//button[@aria-label='More actions']''"

definition dropdown_connect :: string where
  "dropdown_connect =
     ''//div[contains(@class, 'artdeco-dropdown')]//span[contains(text(), 'Connect')]''"

definition not_found :: exn where
  "not_found = HTTPException 404 ''Connect button not found''"

text \<open>The second \<^verbatim>\<open>try\<close> block of \<^verbatim>\<open>findConnectBtn\<close>: the dropdown.\<close>

definition menu_fallback :: "driver \<Rightarrow> (exn + element) \<times> driver" where
  "menu_fallback d =
     (case waitForElement d XPATH more_actions 10 of
        Inl _ \<Rightarrow> (Inl not_found, d)
      | Inr more_btn \<Rightarrow>
          (case perform d (Click more_btn) of
             (Some _, d') \<Rightarrow> (Inl not_found, d')
           | (None, d') \<Rightarrow>
               (case waitForElement d' XPATH dropdown_connect 10 of
                  Inl _ \<Rightarrow> (Inl not_found, d')
                | Inr connect_option \<Rightarrow> (Inr connect_option, d'))))"

definition findConnectBtn :: "driver \<Rightarrow> (exn + element) \<times> driver" where
  "findConnectBtn d =
     (case try_selectors d possible_selectors of
        Some button \<Rightarrow> (Inr button, d)
      | None \<Rightarrow> menu_fallback d)"

definition indicators :: "string list" where
  "indicators =
     [''//span[contains(text(), '1st')]'',
      ''//button[contains(text(), 'Message')]'',
      ''//span[contains(@class, 'connection-status') and contains(text(), 'Connected')]'']"

fun check_indicators :: "driver \<Rightarrow> string list \<Rightarrow> exn + bool" where
  "check_indicators d [] = Inr False"
| "check_indicators d (indicator # rest) =
     (case waitForElement d XPATH indicator 5 of
        Inr _ \<Rightarrow> Inr True
      | Inl _ \<Rightarrow> check_indicators d rest)"

definition checkIfConnected :: "driver \<Rightarrow> exn + bool" where
  "checkIfConnected d = check_indicators d indicators"

subsection \<open>The handlers\<close>

text \<open>
  Each handler is a \<^verbatim>\<open>try\<close> block (\<open>_body\<close>) under an \<^verbatim>\<open>except Exception\<close>
  that replaces whatever was raised by one fixed \<open>HTTPException\<close>. The browser is an
  object: what a handler did to it before raising stays done.
\<close>

definition login_url :: string where
  "login_url = ''https://www.linkedin.com/login''"

text \<open>Lines 166 to 181 of \<^verbatim>\<open>doLogin\<close>: fill the form, submit, wait for the feed.\<close>

definition submit_credentials :: "driver \<Rightarrow> LoginCredentials \<Rightarrow> exn option \<times> driver" where
  "submit_credentials d creds =
     (case waitForElement d ID ''username'' 10 of
        Inl e \<Rightarrow> (Some e, d)
      | Inr username_field \<Rightarrow>
     (case perform d (Clear username_field) of
        (Some e, d1) \<Rightarrow> (Some e, d1)
      | (None, d1) \<Rightarrow>
     (case perform d1 (SendKeys username_field (email creds)) of
        (Some e, d2) \<Rightarrow> (Some e, d2)
      | (None, d2) \<Rightarrow>
     (case waitForElement d2 ID ''password'' 10 of
        Inl e \<Rightarrow> (Some e, d2)
      | Inr password_field \<Rightarrow>
     (case perform d2 (Clear password_field) of
        (Some e, d3) \<Rightarrow> (Some e, d3)
      | (None, d3) \<Rightarrow>
     (case perform d3 (SendKeys password_field (passwd creds)) of
        (Some e, d4) \<Rightarrow> (Some e, d4)
      | (None, d4) \<Rightarrow>
     (case waitForElement d4 XPATH ''//button[@type='submit']'' 10 of
        Inl e \<Rightarrow> (Some e, d4)
      | Inr submit_btn \<Rightarrow>
     (case perform d4 (Click submit_btn) of
        (Some e, d5) \<Rightarrow> (Some e, d5)
      | (None, d5) \<Rightarrow> perform d5 (AwaitUrl ''feed'' 15)))))))))"

text \<open>Lines 158 to 185 of \<^verbatim>\<open>doLogin\<close>: what follows once a browser is there.\<close>

definition login_steps :: "manager \<Rightarrow> LoginCredentials \<Rightarrow> (exn + response) \<times> manager" where
  "login_steps s1 creds =
     (case browser s1 of
        None \<Rightarrow> (Inl AttributeError, s1)
      | Some d \<Rightarrow>
     (case perform d (Get login_url) of
        (Some e, d1) \<Rightarrow> (Inl e, s1\<lparr>browser := Some d1\<rparr>)
      | (None, d1) \<Rightarrow>
     (case loadCookies (s1\<lparr>browser := Some d1\<rparr>) of
        (Inl e, s2) \<Rightarrow> (Inl e, s2)
      | (Inr _, s2) \<Rightarrow>
     (case browser s2 of
        None \<Rightarrow> (Inl AttributeError, s2)
      | Some d2 \<Rightarrow>
          if str_contains (current_url (page d2)) ''feed''
          then (Inr (''ok'', ''Already logged in''), s2)
          else
            (case submit_credentials d2 creds of
               (Some e, d3) \<Rightarrow> (Inl e, s2\<lparr>browser := Some d3\<rparr>)
             | (None, d3) \<Rightarrow>
                 (case saveCookies (s2\<lparr>browser := Some d3\<rparr>) of
                    (Inl e, s3) \<Rightarrow> (Inl e, s3)
                  | (Inr _, s3) \<Rightarrow> (Inr (''ok'', ''Logged in successfully''), s3)))))))"

text \<open>
  The \<^verbatim>\<open>try\<close> block of \<^verbatim>\<open>doLogin\<close>: the browser is started only when the manager
  holds none.
\<close>

definition doLogin_body :: "manager \<Rightarrow> LoginCredentials \<Rightarrow> (exn + response) \<times> manager" where
  "doLogin_body s creds =
     (case (case browser s of None \<Rightarrow> startBrowser s | Some _ \<Rightarrow> (Inr (), s)) of
        (Inl e, s1) \<Rightarrow> (Inl e, s1)
      | (Inr _, s1) \<Rightarrow> login_steps s1 creds)"

definition doLogin :: "manager \<Rightarrow> LoginCredentials \<Rightarrow> (exn + response) \<times> manager" where
  "doLogin s creds =
     (case doLogin_body s creds of
        (Inl e, s') \<Rightarrow> (Inl (HTTPException 400 ''Login didn't work, check credentials''), s')
      | (Inr r, s') \<Rightarrow> (Inr r, s'))"

definition send_now :: string where
  "send_now = ''//button[contains(@aria-label, 'Send now')]''"

text \<open>The inner \<^verbatim>\<open>try\<close> of \<^verbatim>\<open>sendConnect\<close>: whatever is raised there is dropped.\<close>

definition confirm_send :: "driver \<Rightarrow> driver" where
  "confirm_send d =
     (case waitForElement d XPATH send_now 5 of
        Inl _ \<Rightarrow> d
      | Inr send_btn \<Rightarrow> snd (perform d (Click send_btn)))"

definition sendConnect_body :: "manager \<Rightarrow> ConnectProfile \<Rightarrow> (exn + response) \<times> manager" where
  "sendConnect_body s request =
     (case browser s of
        None \<Rightarrow> (Inl (HTTPException 400 ''Need to login first!''), s)
      | Some d \<Rightarrow>
     (case perform d (Get (ConnectProfile.profileLink request)) of
        (Some e, d1) \<Rightarrow> (Inl e, s\<lparr>browser := Some d1\<rparr>)
      | (None, d1) \<Rightarrow>
     (case findConnectBtn d1 of
        (Inl e, d2) \<Rightarrow> (Inl e, s\<lparr>browser := Some d2\<rparr>)
      | (Inr connect_button, d2) \<Rightarrow>
     (case perform d2 (MoveClick connect_button) of
        (Some e, d3) \<Rightarrow> (Inl e, s\<lparr>browser := Some d3\<rparr>)
      | (None, d3) \<Rightarrow>
     (case saveCookies (s\<lparr>browser := Some (confirm_send d3)\<rparr>) of
        (Inl e, s') \<Rightarrow> (Inl e, s')
      | (Inr _, s') \<Rightarrow> (Inr (''ok'', ''Connection request sent''), s'))))))"

definition sendConnect :: "manager \<Rightarrow> ConnectProfile \<Rightarrow> (exn + response) \<times> manager" where
  "sendConnect s request =
     (case sendConnect_body s request of
        (Inl e, s') \<Rightarrow> (Inl (HTTPException 400 ''Couldn't send connection request''), s')
      | (Inr r, s') \<Rightarrow> (Inr r, s'))"

text \<open>The \<^verbatim>\<open>if\<close> branch of \<^verbatim>\<open>checkAndMessage\<close>: open the box, type, send.\<close>

definition send_message :: "driver \<Rightarrow> string \<Rightarrow> exn option \<times> driver" where
  "send_message d text =
     (case waitForElement d XPATH ''//button[contains(text(), 'Message')]'' 10 of
        Inl e \<Rightarrow> (Some e, d)
      | Inr message_btn \<Rightarrow>
     (case perform d (MoveClick message_btn) of
        (Some e, d1) \<Rightarrow> (Some e, d1)
      | (None, d1) \<Rightarrow>
     (case waitForElement d1 XPATH ''//div[@role='textbox']'' 10 of
        Inl e \<Rightarrow> (Some e, d1)
      | Inr message_box \<Rightarrow>
     (case perform d1 (SendKeys message_box text) of
        (Some e, d2) \<Rightarrow> (Some e, d2)
      | (None, d2) \<Rightarrow>
     (case waitForElement d2 XPATH ''//button[contains(text(), 'Send')]'' 10 of
        Inl e \<Rightarrow> (Some e, d2)
      | Inr send_btn \<Rightarrow> perform d2 (Click send_btn))))))"

definition checkAndMessage_body :: "manager \<Rightarrow> SendMessage \<Rightarrow> (exn + response) \<times> manager" where
  "checkAndMessage_body s request =
     (case browser s of
        None \<Rightarrow> (Inl (HTTPException 400 ''Login required!''), s)
      | Some d \<Rightarrow>
     (case perform d (Get (SendMessage.profileLink request)) of
        (Some e, d1) \<Rightarrow> (Inl e, s\<lparr>browser := Some d1\<rparr>)
      | (None, d1) \<Rightarrow>
     (case checkIfConnected d1 of
        Inl e \<Rightarrow> (Inl e, s\<lparr>browser := Some d1\<rparr>)
      | Inr True \<Rightarrow>
          (case send_message d1 (messageText request) of
             (Some e, d2) \<Rightarrow> (Inl e, s\<lparr>browser := Some d2\<rparr>)
           | (None, d2) \<Rightarrow>
               (Inr (''ok'', ''Message sent successfully''), s\<lparr>browser := Some d2\<rparr>))
      | Inr False \<Rightarrow>
          (Inr (''ok'', ''Not connected yet''), s\<lparr>browser := Some d1\<rparr>))))"

definition checkAndMessage :: "manager \<Rightarrow> SendMessage \<Rightarrow> (exn + response) \<times> manager" where
  "checkAndMessage s request =
     (case checkAndMessage_body s request of
        (Inl e, s') \<Rightarrow> (Inl (HTTPException 400 ''Something went wrong with messaging''), s')
      | (Inr r, s') \<Rightarrow> (Inr r, s'))"

definition closeBrowser :: "manager \<Rightarrow> (exn + response) \<times> manager" where
  "closeBrowser s =
     (case shutdown s of
        (Inl e, s') \<Rightarrow> (Inl (HTTPException 500 ''Couldn't close the browser''), s')
      | (Inr _, s') \<Rightarrow> (Inr (''ok'', ''Browser session closed''), s'))"

subsection \<open>What the specification calls satisfiable and reachable\<close>

text \<open>
  A strategy is satisfiable on a page when its selector has a match there within the
  default ten seconds and that match is displayed.
\<close>

definition satisfiable :: "driver \<Rightarrow> string \<Rightarrow> bool" where
  "satisfiable d selector =
     (case located (page d) XPATH selector 10 of
        Some e \<Rightarrow> visibility e = Visible
      | None \<Rightarrow> False)"

text \<open>
  The connect action behind the menu: the \<open>More actions\<close> button is located, clicking
  it raises nothing, and the page the click gives has the \<open>Connect\<close> entry.
\<close>

definition menu_option :: "driver \<Rightarrow> element option" where
  "menu_option d =
     (case located (page d) XPATH more_actions 10 of
        None \<Rightarrow> None
      | Some more_btn \<Rightarrow>
          (case respond d (page d) (Click more_btn) of
             (Some _, _) \<Rightarrow> None
           | (None, p) \<Rightarrow> located p XPATH dropdown_connect 10))"

text \<open>The live browser processes are exactly the one the manager holds, if any.\<close>

definition one_browser :: "manager \<Rightarrow> bool" where
  "one_browser s = (processes s = (if browser s = None then 0 else 1))"

subsection \<open>A small site to run the operations on\<close>

text \<open>
  Pages list their elements as (selector, seconds until present, element). Alice's
  profile has a hidden invite button and two visible connect buttons; on Bob's the
  connect action is only in the menu; Carol's shows nothing of a connection. With the
  session cookie the login address lands on the feed.
\<close>

definition el :: "nat \<Rightarrow> visibility \<Rightarrow> element" where
  "el n v = \<lparr>ident = n, visibility = v\<rparr>"

definition page_of :: "string \<Rightarrow> cookie list \<Rightarrow> (string \<times> nat \<times> element) list \<Rightarrow> page" where
  "page_of url cs els =
     \<lparr>current_url = url, cookies = cs,
      located = (\<lambda>b v t. if b = XPATH
                 then (case map_of els v of
                         Some (delay, e) \<Rightarrow> if delay \<le> t then Some e else None
                       | None \<Rightarrow> None)
                 else None)\<rparr>"

definition alice_page :: page where
  "alice_page = page_of ''https://www.linkedin.com/in/alice'' [(''li_at'', ''t0k3n'')]
     [(possible_selectors ! 0, 0, el 1 Hidden),
      (possible_selectors ! 1, 2, el 2 Visible),
      (possible_selectors ! 2, 0, el 3 Visible)]"

definition bob_page :: page where
  "bob_page = page_of ''https://www.linkedin.com/in/bob'' [(''li_at'', ''t0k3n'')]
     [(more_actions, 1, el 4 Visible)]"

definition bob_menu_page :: page where
  "bob_menu_page = page_of ''https://www.linkedin.com/in/bob'' [(''li_at'', ''t0k3n'')]
     [(more_actions, 0, el 4 Visible), (dropdown_connect, 0, el 5 Visible)]"

definition carol_page :: page where
  "carol_page = page_of ''https://www.linkedin.com/in/carol'' [(''li_at'', ''t0k3n'')]
     [(indicators ! 1, 8, el 6 Visible)]"

definition feed_page :: page where
  "feed_page = page_of ''https://www.linkedin.com/feed/'' [(''li_at'', ''t0k3n'')] []"

definition blank_page :: page where
  "blank_page = page_of ''about:blank'' [] []"

definition site :: "page \<Rightarrow> command \<Rightarrow> exn option \<times> page" where
  "site p c =
     (case c of
        Get url \<Rightarrow>
          (if url = ''https://www.linkedin.com/in/alice'' then (None, alice_page)
           else if url = ''https://www.linkedin.com/in/bob'' then (None, bob_page)
           else if url = ''https://www.linkedin.com/in/carol'' then (None, carol_page)
           else if url = login_url then (None, feed_page)
           else (Some (WebDriverException ''invalid argument''), p))
      | Click e \<Rightarrow> (None, if ident e = 4 then bob_menu_page else p)
      | _ \<Rightarrow> (None, p))"

definition on_page :: "page \<Rightarrow> driver" where
  "on_page p = \<lparr>page = p, respond = site, history = []\<rparr>"

text \<open>A browser whose \<^verbatim>\<open>quit\<close> raises.\<close>

definition stuck :: driver where
  "stuck = \<lparr>page = blank_page,
            respond = (\<lambda>p c. (if c = Quit then Some (WebDriverException ''no such window'')
                                 else None, p)),
            history = []\<rparr>"

text \<open>A browser on the same site whose \<^verbatim>\<open>get_cookies\<close> raises.\<close>

definition deaf :: driver where
  "deaf = \<lparr>page = feed_page,
           respond = (\<lambda>p c. if c = GetCookies
                             then (Some (WebDriverException ''disconnected''), p)
                             else site p c),
           history = []\<rparr>"

definition deaf_session :: manager where
  "deaf_session = \<lparr>browser = Some deaf, cookie_file = None,
                    processes = 1, chrome = None\<rparr>"

definition bob_request :: ConnectProfile where
  "bob_request = \<lparr>ConnectProfile.profileLink = ''https://www.linkedin.com/in/bob''\<rparr>"

definition alice_request :: ConnectProfile where
  "alice_request = \<lparr>ConnectProfile.profileLink = ''https://www.linkedin.com/in/alice''\<rparr>"

definition carol_request :: ConnectProfile where
  "carol_request = \<lparr>ConnectProfile.profileLink = ''https://www.linkedin.com/in/carol''\<rparr>"

definition carol_message :: SendMessage where
  "carol_message = \<lparr>profileLink = ''https://www.linkedin.com/in/carol'',
                     messageText = ''Hello Carol''\<rparr>"

definition stuck_session :: manager where
  "stuck_session = \<lparr>browser = Some stuck, cookie_file = Some [(''li_at'', ''t0k3n'')],
                     processes = 1, chrome = None\<rparr>"

definition logged_out :: manager where
  "logged_out = \<lparr>browser = None, cookie_file = Some [(''li_at'', ''t0k3n'')],
                  processes = 0, chrome = Some (on_page blank_page)\<rparr>"

definition logged_in :: manager where
  "logged_in = \<lparr>browser = Some (on_page feed_page),
                 cookie_file = Some [(''li_at'', ''t0k3n'')],
                 processes = 1, chrome = Some (on_page blank_page)\<rparr>"

section \<open>Properties\<close>

subsection \<open>Facts about the steps\<close>

lemma perform_eq:
  "perform d c =
     (fst (respond d (page d) c),
      d\<lparr>page := snd (respond d (page d) c), history := history d @ [c]\<rparr>)"
  by (simp add: perform_def split: prod.split)

lemma perform_history: "history (snd (perform d c)) = history d @ [c]"
  by (simp add: perform_eq)

lemma waitForElement_Inr:
  "(waitForElement d b v t = Inr e) = (located (page d) b v t = Some e)"
  by (simp add: waitForElement_def split: option.split)

lemma waitForElement_None:
  "located (page d) b v t = None \<Longrightarrow>
   waitForElement d b v t = Inl (HTTPException 404 (''Element '' @ v @ '' not found''))"
  by (simp add: waitForElement_def)

lemma try_selectors_skip:
  "\<not> satisfiable d selector \<Longrightarrow> try_selectors d (selector # rest) = try_selectors d rest"
  by (simp add: satisfiable_def waitForElement_def is_displayed_def
      split: option.splits visibility.splits)

lemma try_selectors_take:
  "satisfiable d selector \<Longrightarrow>
   try_selectors d (selector # rest) = located (page d) XPATH selector 10"
  by (simp add: satisfiable_def waitForElement_def is_displayed_def
      split: option.splits visibility.splits)

lemma try_selectors_prefix:
  "\<forall>s\<in>set higher. \<not> satisfiable d s \<Longrightarrow>
   try_selectors d (higher @ rest) = try_selectors d rest"
proof (induction higher)
  case Nil
  show ?case by simp
next
  case (Cons s higher)
  then have "\<not> satisfiable d s" by simp
  then have "try_selectors d ((s # higher) @ rest) = try_selectors d (higher @ rest)"
    using try_selectors_skip by simp
  with Cons show ?case by simp
qed

lemma try_selectors_none:
  "\<forall>s\<in>set sels. \<not> satisfiable d s \<Longrightarrow> try_selectors d sels = None"
  using try_selectors_prefix [of sels d "[]"] by simp

lemma try_selectors_sound:
  "try_selectors d sels = Some e \<Longrightarrow>
   \<exists>s\<in>set sels. located (page d) XPATH s 10 = Some e \<and> visibility e = Visible"
proof (induction sels)
  case Nil
  then show ?case by simp
next
  case (Cons s sels)
  show ?case
  proof (cases "satisfiable d s")
    case True
    with Cons.prems have "located (page d) XPATH s 10 = Some e"
      by (metis try_selectors_take)
    with True show ?thesis by (simp add: satisfiable_def)
  next
    case False
    with Cons.prems have "try_selectors d sels = Some e"
      by (metis try_selectors_skip)
    with Cons.IH show ?thesis by auto
  qed
qed

lemma check_indicators_eq:
  "check_indicators d is = Inr (\<exists>i\<in>set is. located (page d) XPATH i 5 \<noteq> None)"
  by (induction "is") (auto simp: waitForElement_def split: option.splits)

subsection \<open>The claims\<close>

text \<open>
  C1. Whatever the strategy list, when some strategy is satisfiable the loop of the
  locator returns the element of the first satisfiable one in declared order: the
  strategies before it are not satisfiable, those after it may well be and are never
  looked at. With the three selectors of \<^verbatim>\<open>findConnectBtn\<close> that element is what
  \<^verbatim>\<open>findConnectBtn\<close> returns, and the browser is left as it was.
\<close>

theorem highest_priority_strategy_wins:
  assumes "sels = higher @ selector # lower"
    and "\<forall>s\<in>set higher. \<not> satisfiable d s"
    and "satisfiable d selector"
  shows "\<exists>e. located (page d) XPATH selector 10 = Some e \<and> visibility e = Visible \<and>
             try_selectors d sels = Some e \<and>
             (sels = possible_selectors \<longrightarrow> findConnectBtn d = (Inr e, d))"
proof -
  from assms(3) obtain e where e: "located (page d) XPATH selector 10 = Some e"
    and v: "visibility e = Visible"
    by (auto simp: satisfiable_def split: option.splits)
  have "try_selectors d sels = try_selectors d (selector # lower)"
    using assms(1,2) try_selectors_prefix by simp
  also have "\<dots> = Some e"
    using assms(3) e by (metis try_selectors_take)
  finally have t: "try_selectors d sels = Some e" .
  then have "sels = possible_selectors \<longrightarrow> findConnectBtn d = (Inr e, d)"
    by (auto simp: findConnectBtn_def)
  with e v t show ?thesis by simp
qed

text \<open>
  On Alice's profile the first selector matches a hidden button and the second and the
  third both match visible ones: the locator returns the second.
\<close>

theorem highest_priority_strategy_wins_witness:
  "possible_selectors = [possible_selectors ! 0] @ possible_selectors ! 1 # [possible_selectors ! 2]
   \<and> \<not> satisfiable (on_page alice_page) (possible_selectors ! 0)
   \<and> satisfiable (on_page alice_page) (possible_selectors ! 1)
   \<and> satisfiable (on_page alice_page) (possible_selectors ! 2)
   \<and> findConnectBtn (on_page alice_page) = (Inr (el 2 Visible), on_page alice_page)"
proof -
  have split: "possible_selectors =
      [possible_selectors ! 0] @ possible_selectors ! 1 # [possible_selectors ! 2]"
    by (simp add: possible_selectors_def)
  have first: "\<forall>s\<in>set [possible_selectors ! 0]. \<not> satisfiable (on_page alice_page) s"
    by (simp add: satisfiable_def on_page_def alice_page_def page_of_def el_def
        possible_selectors_def)
  have second: "satisfiable (on_page alice_page) (possible_selectors ! 1)"
    by (simp add: satisfiable_def on_page_def alice_page_def page_of_def el_def
        possible_selectors_def)
  have third: "satisfiable (on_page alice_page) (possible_selectors ! 2)"
    by (simp add: satisfiable_def on_page_def alice_page_def page_of_def el_def
        possible_selectors_def)
  have e: "located (page (on_page alice_page)) XPATH (possible_selectors ! 1) 10
      = Some (el 2 Visible)"
    by (simp add: on_page_def alice_page_def page_of_def el_def possible_selectors_def)
  from highest_priority_strategy_wins [OF split first second] e
  have "findConnectBtn (on_page alice_page) = (Inr (el 2 Visible), on_page alice_page)"
    by auto
  with split first second third show ?thesis by simp
qed

text \<open>
  C4. The probe never raises. It answers \<open>True\<close> (connected) exactly when one of the
  three indicators is located within its five seconds, the first such in order ending
  the search, and \<open>False\<close> (not connected) when none is.
\<close>

theorem probe_defaults_to_not_connected:
  "checkIfConnected d = Inr (\<exists>i\<in>set indicators. located (page d) XPATH i 5 \<noteq> None)"
  by (simp only: checkIfConnected_def check_indicators_eq)

text \<open>
  Carol's page has a Message button, but only after eight seconds: no indicator in
  five, so not connected. The feed page has none at all.
\<close>

theorem probe_defaults_to_not_connected_witness:
  "located (page (on_page carol_page)) XPATH (indicators ! 0) 5 = None
   \<and> located (page (on_page carol_page)) XPATH (indicators ! 1) 5 = None
   \<and> located (page (on_page carol_page)) XPATH (indicators ! 2) 5 = None
   \<and> located (page (on_page carol_page)) XPATH (indicators ! 1) 10 = Some (el 6 Visible)
   \<and> checkIfConnected (on_page carol_page) = Inr False"
  using probe_defaults_to_not_connected [of "on_page carol_page"]
  by (simp add: on_page_def carol_page_def page_of_def el_def indicators_def)

text \<open>
  C10. A Connect or a Probe-and-Message call made while no browser session is active
  fails, and the detail the caller gets is the operation's generic message, not the
  message of the precondition: the \<open>HTTPException\<close> raised in the \<^verbatim>\<open>try\<close> block
  (\<open>Need to login first!\<close>, \<open>Login required!\<close>) is caught by the handler's own
  \<^verbatim>\<open>except Exception\<close> and replaced. Nothing else changes.
\<close>

theorem no_session_generic_failure:
  assumes "browser s = None"
  shows "sendConnect_body s rc = (Inl (HTTPException 400 ''Need to login first!''), s)
    \<and> sendConnect s rc = (Inl (HTTPException 400 ''Couldn't send connection request''), s)
    \<and> checkAndMessage_body s rm = (Inl (HTTPException 400 ''Login required!''), s)
    \<and> checkAndMessage s rm =
          (Inl (HTTPException 400 ''Something went wrong with messaging''), s)
    \<and> fst (sendConnect s rc) \<noteq> Inl (HTTPException 400 ''Need to login first!'')
    \<and> fst (checkAndMessage s rm) \<noteq> Inl (HTTPException 400 ''Login required!'')"
  using assms
  by (simp add: sendConnect_def sendConnect_body_def
        checkAndMessage_def checkAndMessage_body_def)

theorem no_session_generic_failure_witness:
  "browser logged_out = None
   \<and> sendConnect logged_out \<lparr>ConnectProfile.profileLink = ''https://www.linkedin.com/in/alice''\<rparr>
       = (Inl (HTTPException 400 ''Couldn't send connection request''), logged_out)
   \<and> checkAndMessage logged_out
         \<lparr>profileLink = ''https://www.linkedin.com/in/alice'', messageText = ''hello''\<rparr>
       = (Inl (HTTPException 400 ''Something went wrong with messaging''), logged_out)"
proof -
  have h: "browser logged_out = None" by (simp add: logged_out_def)
  from no_session_generic_failure [OF h] h show ?thesis by simp
qed

lemma add_cookies_history:
  "add_cookies d cs = (None, d') \<Longrightarrow> history d' = history d @ map AddCookie cs"
proof (induction cs arbitrary: d)
  case Nil
  then show ?case by simp
next
  case (Cons c cs)
  then show ?case
    by (auto simp: perform_eq split: prod.splits option.splits)
qed

lemma loadCookies_ok:
  assumes "loadCookies s = (Inr (), s2)" and "browser s = Some d"
  shows "\<exists>d2. browser s2 = Some d2 \<and> s2 = s\<lparr>browser := Some d2\<rparr> \<and>
            history d2 = history d @ map AddCookie (case cookie_file s of None \<Rightarrow> [] | Some cs \<Rightarrow> cs)"
  using assms
  by (auto simp: loadCookies_def dest: add_cookies_history split: option.splits prod.splits)

lemma startBrowser_ok:
  "startBrowser s = (Inr (), s1) \<Longrightarrow> cookie_file s1 = cookie_file s \<and> browser s1 \<noteq> None"
  by (auto simp: startBrowser_def split: option.splits prod.splits)

text \<open>
  C6. A Login call that, after going to the login page and loading the stored cookies,
  finds the feed marker in the current address returns \<open>Already logged in\<close>. All it
  sent to the browser is the navigation and one \<^verbatim>\<open>add_cookie\<close> for each stored cookie
  (after the start-up command when the browser had to be started): no field is cleared
  or typed into, nothing is clicked, and the cookie file is left as it was.
\<close>

theorem already_logged_in_skips_form:
  assumes started: "(browser s = Some d \<and> s1 = s) \<or>
      (browser s = None \<and> startBrowser s = (Inr (), s1) \<and> browser s1 = Some d)"
    and nav: "perform d (Get login_url) = (None, d1)"
    and load: "loadCookies (s1\<lparr>browser := Some d1\<rparr>) = (Inr (), s2)"
    and handle: "browser s2 = Some d2"
    and feed: "str_contains (current_url (page d2)) ''feed''"
  shows "doLogin s creds = (Inr (''ok'', ''Already logged in''), s2)
    \<and> cookie_file s2 = cookie_file s
    \<and> history d2 = history d @ Get login_url #
         map AddCookie (case cookie_file s of None \<Rightarrow> [] | Some cs \<Rightarrow> cs)"
proof -
  have s1: "(case browser s of None \<Rightarrow> startBrowser s | Some _ \<Rightarrow> (Inr (), s)) = (Inr (), s1)"
    and b1: "browser s1 = Some d" and f1: "cookie_file s1 = cookie_file s"
    using started startBrowser_ok by auto
  have body: "doLogin_body s creds = (Inr (''ok'', ''Already logged in''), s2)"
    unfolding doLogin_body_def login_steps_def using nav load handle feed by (simp add: s1 b1)
  from loadCookies_ok [OF load] handle f1
  have "cookie_file s2 = cookie_file s"
    and "history d2 = history d1 @ map AddCookie (case cookie_file s of None \<Rightarrow> [] | Some cs \<Rightarrow> cs)"
    by auto
  moreover have "history d1 = history d @ [Get login_url]"
    using nav perform_history [of d "Get login_url"] by simp
  ultimately show ?thesis using body by (simp add: doLogin_def)
qed

text \<open>
  From the logged-out state with a stored session cookie: the browser is started, the
  login address lands on the feed, and the form is never touched.
\<close>

theorem already_logged_in_skips_form_witness:
  "browser logged_out = None
   \<and> cookie_file logged_out = Some [(''li_at'', ''t0k3n'')]
   \<and> str_contains ''https://www.linkedin.com/feed/'' ''feed''
   \<and> fst (doLogin logged_out \<lparr>email = ''a@x.com'', passwd = ''pw''\<rparr>)
       = Inr (''ok'', ''Already logged in'')
   \<and> browser (snd (doLogin logged_out \<lparr>email = ''a@x.com'', passwd = ''pw''\<rparr>))
       = Some \<lparr>page = feed_page, respond = site,
               history = [ExecuteCdp, Get login_url, AddCookie (''li_at'', ''t0k3n'')]\<rparr>"
proof -
  let ?d = "\<lparr>page = blank_page, respond = site, history = [ExecuteCdp]\<rparr>"
  let ?d1 = "\<lparr>page = feed_page, respond = site, history = [ExecuteCdp, Get login_url]\<rparr>"
  let ?d2 = "\<lparr>page = feed_page, respond = site,
               history = [ExecuteCdp, Get login_url, AddCookie (''li_at'', ''t0k3n'')]\<rparr>"
  let ?s1 = "logged_out\<lparr>browser := Some ?d, processes := 1\<rparr>"
  let ?s2 = "logged_out\<lparr>browser := Some ?d2, processes := 1\<rparr>"
  have none: "browser logged_out = None"
    and cfile: "cookie_file logged_out = Some [(''li_at'', ''t0k3n'')]"
    by (simp_all add: logged_out_def)
  have start: "startBrowser logged_out = (Inr (), ?s1)"
    by (simp add: startBrowser_def logged_out_def perform_eq on_page_def site_def)
  have started: "(browser logged_out = Some ?d \<and> ?s1 = logged_out) \<or>
      (browser logged_out = None \<and> startBrowser logged_out = (Inr (), ?s1) \<and> browser ?s1 = Some ?d)"
    using none start by simp
  have nav: "perform ?d (Get login_url) = (None, ?d1)"
    by (simp add: perform_eq site_def login_url_def)
  have load: "loadCookies (?s1\<lparr>browser := Some ?d1\<rparr>) = (Inr (), ?s2)"
    by (simp add: loadCookies_def logged_out_def perform_eq site_def)
  have handle: "browser ?s2 = Some ?d2" by simp
  have feed: "str_contains ''https://www.linkedin.com/feed/'' ''feed''" by simp
  then have feed': "str_contains (current_url (page ?d2)) ''feed''"
    by (simp add: feed_page_def page_of_def)
  from already_logged_in_skips_form [OF started nav load handle feed']
  have "doLogin logged_out \<lparr>email = ''a@x.com'', passwd = ''pw''\<rparr>
      = (Inr (''ok'', ''Already logged in''), ?s2)" by simp
  with none cfile feed show ?thesis by simp
qed

text \<open>
  C2, as the code has it. An element the loop over the direct strategies returns was
  located by one of them and is displayed: a match that is hidden, or whose
  \<^verbatim>\<open>is_displayed\<close> raises, sends the loop to the next strategy. \<^verbatim>\<open>waitForElement\<close>
  itself waits for presence only: it returns the match of the selector whatever its
  visibility.
\<close>

theorem direct_matches_are_visible:
  "(try_selectors d sels = Some e \<longrightarrow>
      (\<exists>s\<in>set sels. located (page d) XPATH s 10 = Some e) \<and> is_displayed e = Inr True)
   \<and> (try_selectors d possible_selectors = Some e \<longrightarrow> findConnectBtn d = (Inr e, d))
   \<and> (waitForElement d b v t = Inr e') = (located (page d) b v t = Some e')"
proof -
  have "try_selectors d sels = Some e \<longrightarrow>
      (\<exists>s\<in>set sels. located (page d) XPATH s 10 = Some e) \<and> is_displayed e = Inr True"
    using try_selectors_sound [of d sels e] by (auto simp: is_displayed_def)
  moreover have "try_selectors d possible_selectors = Some e \<longrightarrow> findConnectBtn d = (Inr e, d)"
    by (simp add: findConnectBtn_def)
  ultimately show ?thesis by (simp add: waitForElement_Inr)
qed

lemma alice_direct:
  "try_selectors (on_page alice_page) possible_selectors = Some (el 2 Visible)"
  by (simp add: possible_selectors_def waitForElement_def is_displayed_def on_page_def
      alice_page_def page_of_def el_def)

text \<open>
  Alice's profile: the hidden invite button is passed over and the displayed connect
  button is returned.
\<close>

theorem direct_matches_are_visible_witness:
  "try_selectors (on_page alice_page) possible_selectors = Some (el 2 Visible)
   \<and> is_displayed (el 2 Visible) = Inr True
   \<and> findConnectBtn (on_page alice_page) = (Inr (el 2 Visible), on_page alice_page)"
  using direct_matches_are_visible [of "on_page alice_page" possible_selectors "el 2 Visible"]
    alice_direct
  by simp

text \<open>
  C2 as stated fails: on Alice's profile \<^verbatim>\<open>waitForElement\<close> returns the invite
  button, which is present and not displayed.
\<close>

theorem hidden_element_returned_counterexample:
  "waitForElement (on_page alice_page) XPATH (possible_selectors ! 0) 10 = Inr (el 1 Hidden)
   \<and> is_displayed (el 1 Hidden) = Inr False"
  by (simp add: waitForElement_def is_displayed_def on_page_def alice_page_def page_of_def
      el_def possible_selectors_def)

lemma menu_fallback_result:
  "fst (menu_fallback d) =
     (case menu_option d of
        Some c \<Rightarrow> Inr c
      | None \<Rightarrow> Inl (HTTPException 404 ''Connect button not found''))"
  by (simp add: menu_fallback_def menu_option_def waitForElement_def perform_eq not_found_def
      split: option.splits prod.splits)

lemma menu_fallback_history:
  "history (snd (menu_fallback d)) =
     history d @ (case located (page d) XPATH more_actions 10 of
                    None \<Rightarrow> [] | Some m \<Rightarrow> [Click m])"
  by (simp add: menu_fallback_def waitForElement_def perform_eq
      split: option.splits prod.splits)

lemma sendConnect_not_found:
  assumes "browser s = Some d0" and "perform d0 (Get (ConnectProfile.profileLink r)) = (None, d)"
    and "fst (findConnectBtn d) = Inl e"
  shows "sendConnect s r =
     (Inl (HTTPException 400 ''Couldn't send connection request''),
      s\<lparr>browser := Some (snd (findConnectBtn d))\<rparr>)"
  using assms
  by (cases "findConnectBtn d") (simp add: sendConnect_def sendConnect_body_def)

lemma sendConnect_found:
  assumes "browser s = Some d0" and "perform d0 (Get (ConnectProfile.profileLink r)) = (None, d)"
    and "findConnectBtn d = (Inr c, d2)"
  shows "sendConnect s r =
     (case perform d2 (MoveClick c) of
        (Some e, d3) \<Rightarrow>
          (Inl (HTTPException 400 ''Couldn't send connection request''), s\<lparr>browser := Some d3\<rparr>)
      | (None, d3) \<Rightarrow>
          (case perform (confirm_send d3) GetCookies of
             (Some e, d5) \<Rightarrow>
               (Inl (HTTPException 400 ''Couldn't send connection request''),
                s\<lparr>browser := Some d5\<rparr>)
           | (None, d5) \<Rightarrow>
               (Inr (''ok'', ''Connection request sent''),
                s\<lparr>browser := Some d5, cookie_file := Some (cookies (page d5))\<rparr>)))"
proof (cases "perform d2 (MoveClick c)")
  case (Pair e d3)
  show ?thesis
  proof (cases e)
    case (Some x)
    with assms Pair show ?thesis
      by (simp add: sendConnect_def sendConnect_body_def)
  next
    case None
    with assms Pair show ?thesis
      by (cases "perform (confirm_send d3) GetCookies")
        (simp add: sendConnect_def sendConnect_body_def saveCookies_def split: option.splits)
  qed
qed

text \<open>
  C3. When no direct strategy is satisfiable, the locator goes through the menu once:
  it returns the connect entry when the \<open>More actions\<close> button is located, its click
  raises nothing and the entry is located on the page the click gives, and raises
  \<open>404 Connect button not found\<close> otherwise. The only command it sends is that one
  click. Connect reports the 404 as its failure. When the entry is found, the pointer
  click on it raises nothing and the cookies can be read, Connect succeeds: the browser
  it leaves has received the menu click and the click on the entry, and the cookies
  are saved.
\<close>

theorem menu_fallback_after_direct_failure:
  assumes "\<forall>sel\<in>set possible_selectors. \<not> satisfiable d sel"
  shows "fst (findConnectBtn d) =
           (case menu_option d of
              Some c \<Rightarrow> Inr c
            | None \<Rightarrow> Inl (HTTPException 404 ''Connect button not found''))
    \<and> history (snd (findConnectBtn d)) =
           history d @ (case located (page d) XPATH more_actions 10 of
                          None \<Rightarrow> [] | Some m \<Rightarrow> [Click m])
    \<and> (browser s = Some d0 \<and> perform d0 (Get (ConnectProfile.profileLink r)) = (None, d) \<longrightarrow>
         (menu_option d = None \<longrightarrow>
            sendConnect s r =
              (Inl (HTTPException 400 ''Couldn't send connection request''),
               s\<lparr>browser := Some (snd (findConnectBtn d))\<rparr>))
       \<and> (menu_option d = Some c \<and>
          perform (snd (findConnectBtn d)) (MoveClick c) = (None, d3) \<and>
          perform (confirm_send d3) GetCookies = (None, d5) \<longrightarrow>
            sendConnect s r =
              (Inr (''ok'', ''Connection request sent''),
               s\<lparr>browser := Some d5, cookie_file := Some (cookies (page d5))\<rparr>) \<and>
            history d5 =
              history (confirm_send (snd (perform (snd (findConnectBtn d)) (MoveClick c))))
                @ [GetCookies] \<and>
            history d3 = history (snd (findConnectBtn d)) @ [MoveClick c]))"
proof -
  have fb: "findConnectBtn d = menu_fallback d"
    using try_selectors_none [OF assms] by (simp add: findConnectBtn_def)
  have res: "fst (findConnectBtn d) =
           (case menu_option d of
              Some c \<Rightarrow> Inr c
            | None \<Rightarrow> Inl (HTTPException 404 ''Connect button not found''))"
    by (simp only: fb menu_fallback_result)
  have hist: "history (snd (findConnectBtn d)) =
           history d @ (case located (page d) XPATH more_actions 10 of
                          None \<Rightarrow> [] | Some m \<Rightarrow> [Click m])"
    by (simp only: fb menu_fallback_history)
  have fail: "sendConnect s r =
      (Inl (HTTPException 400 ''Couldn't send connection request''),
       s\<lparr>browser := Some (snd (findConnectBtn d))\<rparr>)"
    if "browser s = Some d0" "perform d0 (Get (ConnectProfile.profileLink r)) = (None, d)"
      "menu_option d = None"
    using sendConnect_not_found [OF that(1,2)] res that(3) by simp
  have ok: "sendConnect s r =
      (Inr (''ok'', ''Connection request sent''),
       s\<lparr>browser := Some d5, cookie_file := Some (cookies (page d5))\<rparr>) \<and>
      history d5 =
        history (confirm_send (snd (perform (snd (findConnectBtn d)) (MoveClick c))))
          @ [GetCookies] \<and>
      history d3 = history (snd (findConnectBtn d)) @ [MoveClick c]"
    if "browser s = Some d0" "perform d0 (Get (ConnectProfile.profileLink r)) = (None, d)"
      "menu_option d = Some c" "perform (snd (findConnectBtn d)) (MoveClick c) = (None, d3)"
      "perform (confirm_send d3) GetCookies = (None, d5)"
  proof -
    have "findConnectBtn d = (Inr c, snd (findConnectBtn d))"
      using res that(3) by (simp add: prod_eq_iff)
    from sendConnect_found [OF that(1,2) this] that(4,5)
    have "sendConnect s r =
      (Inr (''ok'', ''Connection request sent''),
       s\<lparr>browser := Some d5, cookie_file := Some (cookies (page d5))\<rparr>)"
      by simp
    moreover have "history d3 = history (snd (findConnectBtn d)) @ [MoveClick c]"
      using that(4) perform_history [of "snd (findConnectBtn d)" "MoveClick c"] by simp
    moreover have "history d5 = history (confirm_send d3) @ [GetCookies]"
      using that(5) perform_history [of "confirm_send d3" GetCookies] by simp
    ultimately show ?thesis using that(4) by simp
  qed
  from res hist fail ok show ?thesis by blast
qed

lemma bob_nav:
  "perform (on_page feed_page) (Get (ConnectProfile.profileLink bob_request)) =
     (None, \<lparr>page = bob_page, respond = site, history = [Get ''https://www.linkedin.com/in/bob'']\<rparr>)"
  by (simp add: perform_eq on_page_def site_def bob_request_def)

text \<open>
  Bob's profile has no connect button outside the menu: Connect clicks
  \<open>More actions\<close>, finds the entry, clicks it and succeeds.
\<close>

theorem menu_fallback_after_direct_failure_witness:
  "\<not> satisfiable \<lparr>page = bob_page, respond = site, history = [Get ''https://www.linkedin.com/in/bob'']\<rparr> (possible_selectors ! 0)
   \<and> \<not> satisfiable \<lparr>page = bob_page, respond = site, history = [Get ''https://www.linkedin.com/in/bob'']\<rparr> (possible_selectors ! 1)
   \<and> \<not> satisfiable \<lparr>page = bob_page, respond = site, history = [Get ''https://www.linkedin.com/in/bob'']\<rparr> (possible_selectors ! 2)
   \<and> menu_option \<lparr>page = bob_page, respond = site, history = [Get ''https://www.linkedin.com/in/bob'']\<rparr> = Some (el 5 Visible)
   \<and> fst (findConnectBtn \<lparr>page = bob_page, respond = site, history = [Get ''https://www.linkedin.com/in/bob'']\<rparr>) = Inr (el 5 Visible)
   \<and> history (snd (findConnectBtn \<lparr>page = bob_page, respond = site, history = [Get ''https://www.linkedin.com/in/bob'']\<rparr>))
       = [Get ''https://www.linkedin.com/in/bob'', Click (el 4 Visible)]
   \<and> sendConnect logged_in bob_request =
       (Inr (''ok'', ''Connection request sent''),
        logged_in\<lparr>browser := Some \<lparr>page = bob_menu_page, respond = site,
            history = [Get ''https://www.linkedin.com/in/bob'', Click (el 4 Visible),
                       MoveClick (el 5 Visible), GetCookies]\<rparr>,
          cookie_file := Some [(''li_at'', ''t0k3n'')]\<rparr>)"
proof -
  let ?d = "\<lparr>page = bob_page, respond = site, history = [Get ''https://www.linkedin.com/in/bob'']\<rparr>"
  let ?d2 = "\<lparr>page = bob_menu_page, respond = site,
      history = [Get ''https://www.linkedin.com/in/bob'', Click (el 4 Visible)]\<rparr>"
  let ?d3 = "\<lparr>page = bob_menu_page, respond = site,
      history = [Get ''https://www.linkedin.com/in/bob'', Click (el 4 Visible),
                 MoveClick (el 5 Visible)]\<rparr>"
  let ?d5 = "\<lparr>page = bob_menu_page, respond = site,
      history = [Get ''https://www.linkedin.com/in/bob'', Click (el 4 Visible),
                 MoveClick (el 5 Visible), GetCookies]\<rparr>"
  have direct: "\<forall>sel\<in>set possible_selectors. \<not> satisfiable ?d sel"
    by (simp add: satisfiable_def possible_selectors_def bob_page_def page_of_def
        more_actions_def)
  have more: "located (page ?d) XPATH more_actions 10 = Some (el 4 Visible)"
    by (simp add: bob_page_def page_of_def)
  have menu: "menu_option ?d = Some (el 5 Visible)"
    by (simp add: menu_option_def site_def el_def bob_page_def bob_menu_page_def page_of_def
        more_actions_def dropdown_connect_def)
  have handle: "browser logged_in = Some (on_page feed_page)"
    by (simp add: logged_in_def)
  note inst = menu_fallback_after_direct_failure [OF direct, of logged_in "on_page feed_page"
      bob_request "el 5 Visible" ?d3 ?d5]
  have res: "fst (findConnectBtn ?d) = Inr (el 5 Visible)"
    and hist: "history (snd (findConnectBtn ?d)) = [Get ''https://www.linkedin.com/in/bob'', Click (el 4 Visible)]"
    using inst menu more by simp_all
  have page2: "snd (findConnectBtn ?d) = ?d2"
    using try_selectors_none [OF direct] more
    by (simp add: findConnectBtn_def menu_fallback_def waitForElement_def perform_eq site_def
        el_def bob_menu_page_def page_of_def dropdown_connect_def more_actions_def)
  have click: "perform (snd (findConnectBtn ?d)) (MoveClick (el 5 Visible)) = (None, ?d3)"
    by (simp add: page2 perform_eq site_def)
  have confirm: "confirm_send ?d3 = ?d3"
    by (simp add: confirm_send_def waitForElement_def send_now_def bob_menu_page_def
        page_of_def more_actions_def dropdown_connect_def)
  have read: "perform (confirm_send ?d3) GetCookies = (None, ?d5)"
    by (simp add: confirm perform_eq site_def)
  have saved: "cookies (page ?d5) = [(''li_at'', ''t0k3n'')]"
    by (simp add: bob_menu_page_def page_of_def)
  have "sendConnect logged_in bob_request =
       (Inr (''ok'', ''Connection request sent''),
        logged_in\<lparr>browser := Some ?d5, cookie_file := Some [(''li_at'', ''t0k3n'')]\<rparr>)"
    using inst handle bob_nav menu click read saved by simp
  with direct menu res hist show ?thesis
    by (simp add: possible_selectors_def)
qed

text \<open>
  C7. With an active session, when the profile page loads and none of the three
  indicators is located within five seconds, Probe-and-Message returns the success
  \<open>Not connected yet\<close>. The navigation is the only command sent to the browser: no
  message button is clicked, nothing is typed, no invitation is sent and nothing is
  tried again. The cookie file and the processes are as before.
\<close>

theorem not_connected_is_terminal:
  assumes "browser s = Some d"
    and "respond d (page d) (Get (SendMessage.profileLink r)) = (None, p)"
    and "\<forall>i\<in>set indicators. located p XPATH i 5 = None"
  shows "checkAndMessage s r =
     (Inr (''ok'', ''Not connected yet''),
      s\<lparr>browser := Some (d\<lparr>page := p,
                               history := history d @ [Get (SendMessage.profileLink r)]\<rparr>)\<rparr>)"
proof -
  let ?d1 = "d\<lparr>page := p, history := history d @ [Get (SendMessage.profileLink r)]\<rparr>"
  have nav: "perform d (Get (SendMessage.profileLink r)) = (None, ?d1)"
    using assms(2) by (simp add: perform_eq)
  have "checkIfConnected ?d1 = Inr False"
    using assms(3) by (simp add: checkIfConnected_def check_indicators_eq)
  with assms(1) nav show ?thesis
    by (simp add: checkAndMessage_def checkAndMessage_body_def)
qed

text \<open>
  Carol's page, from the logged-in state.
\<close>

theorem not_connected_is_terminal_witness:
  "browser logged_in = Some (on_page feed_page)
   \<and> located carol_page XPATH (indicators ! 0) 5 = None
   \<and> located carol_page XPATH (indicators ! 1) 5 = None
   \<and> located carol_page XPATH (indicators ! 2) 5 = None
   \<and> checkAndMessage logged_in carol_message =
       (Inr (''ok'', ''Not connected yet''),
        logged_in\<lparr>browser := Some \<lparr>page = carol_page, respond = site,
            history = [Get ''https://www.linkedin.com/in/carol'']\<rparr>\<rparr>)"
proof -
  have handle: "browser logged_in = Some (on_page feed_page)"
    by (simp add: logged_in_def)
  have nav: "respond (on_page feed_page) (page (on_page feed_page))
      (Get (SendMessage.profileLink carol_message)) = (None, carol_page)"
    by (simp add: on_page_def site_def carol_message_def)
  have none: "\<forall>i\<in>set indicators. located carol_page XPATH i 5 = None"
    by (simp add: indicators_def carol_page_def page_of_def)
  from not_connected_is_terminal [OF handle nav none] handle none show ?thesis
    by (simp add: on_page_def carol_message_def indicators_def)
qed

lemma confirm_send_absent:
  "located (page d) XPATH send_now 5 = None \<Longrightarrow> confirm_send d = d"
  by (simp add: confirm_send_def waitForElement_def)

lemma confirm_send_present:
  "located (page d) XPATH send_now 5 = Some b \<Longrightarrow> confirm_send d = snd (perform d (Click b))"
  by (simp add: confirm_send_def waitForElement_def)

text \<open>
  C8. In Connect the confirmation is optional. Once the connect action is located and
  clicked, a \<open>Send now\<close> button that is not located within five seconds, and also
  one that is located and whose click raises, changes nothing of the outcome: when the
  cookies can then be read, Connect saves them and returns \<open>Connection request sent\<close>.
  A required step that fails fails the operation and saves nothing: when the locator
  raises, when the click on the connect action raises, or when reading the cookies
  raises, Connect raises its 400.
\<close>

theorem optional_confirmation_is_swallowed:
  assumes "browser s = Some d"
    and "perform d (Get (ConnectProfile.profileLink r)) = (None, d1)"
  shows "(findConnectBtn d1 = (Inr b, d2) \<and> perform d2 (MoveClick b) = (None, d3) \<and>
          located (page d3) XPATH send_now 5 = None \<and>
          perform d3 GetCookies = (None, d5) \<longrightarrow>
            sendConnect s r =
              (Inr (''ok'', ''Connection request sent''),
               s\<lparr>browser := Some d5, cookie_file := Some (cookies (page d5))\<rparr>))
    \<and> (findConnectBtn d1 = (Inr b, d2) \<and> perform d2 (MoveClick b) = (None, d3) \<and>
          located (page d3) XPATH send_now 5 = Some send_btn \<and>
          perform d3 (Click send_btn) = (raised, d4) \<and>
          perform d4 GetCookies = (None, d5) \<longrightarrow>
            sendConnect s r =
              (Inr (''ok'', ''Connection request sent''),
               s\<lparr>browser := Some d5, cookie_file := Some (cookies (page d5))\<rparr>))
    \<and> (findConnectBtn d1 = (Inl e, d2) \<longrightarrow>
            sendConnect s r =
              (Inl (HTTPException 400 ''Couldn't send connection request''),
               s\<lparr>browser := Some d2\<rparr>))
    \<and> (findConnectBtn d1 = (Inr b, d2) \<and> perform d2 (MoveClick b) = (Some e, d3) \<longrightarrow>
            sendConnect s r =
              (Inl (HTTPException 400 ''Couldn't send connection request''),
               s\<lparr>browser := Some d3\<rparr>))
    \<and> (findConnectBtn d1 = (Inr b, d2) \<and> perform d2 (MoveClick b) = (None, d3) \<and>
          perform (confirm_send d3) GetCookies = (Some e, d5) \<longrightarrow>
            sendConnect s r =
              (Inl (HTTPException 400 ''Couldn't send connection request''),
               s\<lparr>browser := Some d5\<rparr>))"
proof -
  have absent: "sendConnect s r =
      (Inr (''ok'', ''Connection request sent''),
       s\<lparr>browser := Some d5, cookie_file := Some (cookies (page d5))\<rparr>)"
    if "findConnectBtn d1 = (Inr b, d2)" "perform d2 (MoveClick b) = (None, d3)"
      "located (page d3) XPATH send_now 5 = None" "perform d3 GetCookies = (None, d5)"
    using sendConnect_found [OF assms that(1)] that(2,4) confirm_send_absent [OF that(3)]
    by simp
  have present: "sendConnect s r =
      (Inr (''ok'', ''Connection request sent''),
       s\<lparr>browser := Some d5, cookie_file := Some (cookies (page d5))\<rparr>)"
    if "findConnectBtn d1 = (Inr b, d2)" "perform d2 (MoveClick b) = (None, d3)"
      "located (page d3) XPATH send_now 5 = Some send_btn"
      "perform d3 (Click send_btn) = (raised, d4)" "perform d4 GetCookies = (None, d5)"
    using sendConnect_found [OF assms that(1)] that(2,4,5) confirm_send_present [OF that(3)]
    by simp
  have missing: "sendConnect s r =
      (Inl (HTTPException 400 ''Couldn't send connection request''), s\<lparr>browser := Some d2\<rparr>)"
    if "findConnectBtn d1 = (Inl e, d2)"
    using sendConnect_not_found [OF assms, of e] that by simp
  have click: "sendConnect s r =
      (Inl (HTTPException 400 ''Couldn't send connection request''), s\<lparr>browser := Some d3\<rparr>)"
    if "findConnectBtn d1 = (Inr b, d2)" "perform d2 (MoveClick b) = (Some e, d3)"
    using sendConnect_found [OF assms that(1)] that(2) by simp
  have unread: "sendConnect s r =
      (Inl (HTTPException 400 ''Couldn't send connection request''), s\<lparr>browser := Some d5\<rparr>)"
    if "findConnectBtn d1 = (Inr b, d2)" "perform d2 (MoveClick b) = (None, d3)"
      "perform (confirm_send d3) GetCookies = (Some e, d5)"
    using sendConnect_found [OF assms that(1)] that(2,3) by simp
  from absent present missing click unread show ?thesis by blast
qed

lemma alice_nav:
  "perform (on_page feed_page) (Get (ConnectProfile.profileLink alice_request)) =
     (None, \<lparr>page = alice_page, respond = site,
              history = [Get ''https://www.linkedin.com/in/alice'']\<rparr>)"
  by (simp add: perform_eq on_page_def site_def alice_request_def)

lemma carol_nav:
  "perform (on_page feed_page) (Get (ConnectProfile.profileLink carol_request)) =
     (None, \<lparr>page = carol_page, respond = site,
              history = [Get ''https://www.linkedin.com/in/carol'']\<rparr>)"
  by (simp add: perform_eq on_page_def site_def carol_request_def)

lemma deaf_nav:
  "perform deaf (Get (ConnectProfile.profileLink alice_request)) =
     (None, deaf\<lparr>page := alice_page,
                   history := [Get ''https://www.linkedin.com/in/alice'']\<rparr>)"
  by (simp add: perform_eq deaf_def site_def alice_request_def)

lemma alice_found:
  "page d = alice_page \<Longrightarrow> findConnectBtn d = (Inr (el 2 Visible), d)"
  by (simp add: findConnectBtn_def possible_selectors_def waitForElement_def is_displayed_def
      alice_page_def page_of_def el_def)

lemma alice_no_confirmation: "located alice_page XPATH send_now 5 = None"
  by (simp add: alice_page_def page_of_def send_now_def possible_selectors_def)

lemma carol_missing:
  "findConnectBtn \<lparr>page = carol_page, respond = site,
       history = [Get ''https://www.linkedin.com/in/carol'']\<rparr> =
     (Inl (HTTPException 404 ''Connect button not found''), \<lparr>page = carol_page, respond = site,
       history = [Get ''https://www.linkedin.com/in/carol'']\<rparr>)"
  by (simp add: findConnectBtn_def possible_selectors_def waitForElement_def is_displayed_def
      menu_fallback_def more_actions_def not_found_def indicators_def
      carol_page_def page_of_def el_def)

text \<open>
  Alice's profile has no confirmation button and Connect succeeds; Carol's has no
  connect action at all and Connect fails; and on Alice's profile through the browser
  that cannot give its cookies Connect fails after the click, with no file written.
\<close>

theorem optional_confirmation_is_swallowed_witness:
  "browser logged_in = Some (on_page feed_page)
   \<and> located alice_page XPATH send_now 5 = None
   \<and> sendConnect logged_in alice_request =
       (Inr (''ok'', ''Connection request sent''),
        logged_in\<lparr>browser := Some \<lparr>page = alice_page, respond = site,
            history = [Get ''https://www.linkedin.com/in/alice'', MoveClick (el 2 Visible),
                       GetCookies]\<rparr>,
          cookie_file := Some [(''li_at'', ''t0k3n'')]\<rparr>)
   \<and> sendConnect logged_in carol_request =
       (Inl (HTTPException 400 ''Couldn't send connection request''),
        logged_in\<lparr>browser := Some \<lparr>page = carol_page, respond = site,
            history = [Get ''https://www.linkedin.com/in/carol'']\<rparr>\<rparr>)
   \<and> browser deaf_session = Some deaf
   \<and> sendConnect deaf_session alice_request =
       (Inl (HTTPException 400 ''Couldn't send connection request''),
        deaf_session\<lparr>browser := Some (deaf\<lparr>page := alice_page,
            history := [Get ''https://www.linkedin.com/in/alice'', MoveClick (el 2 Visible),
                        GetCookies]\<rparr>)\<rparr>)
   \<and> cookie_file deaf_session = None"
proof -
  let ?a = "\<lparr>page = alice_page, respond = site,
      history = [Get ''https://www.linkedin.com/in/alice'']\<rparr>"
  let ?a3 = "\<lparr>page = alice_page, respond = site,
      history = [Get ''https://www.linkedin.com/in/alice'', MoveClick (el 2 Visible)]\<rparr>"
  let ?a5 = "\<lparr>page = alice_page, respond = site,
      history = [Get ''https://www.linkedin.com/in/alice'', MoveClick (el 2 Visible),
                 GetCookies]\<rparr>"
  let ?c = "\<lparr>page = carol_page, respond = site,
      history = [Get ''https://www.linkedin.com/in/carol'']\<rparr>"
  let ?f = "deaf\<lparr>page := alice_page, history := [Get ''https://www.linkedin.com/in/alice'']\<rparr>"
  let ?f3 = "deaf\<lparr>page := alice_page,
      history := [Get ''https://www.linkedin.com/in/alice'', MoveClick (el 2 Visible)]\<rparr>"
  let ?f5 = "deaf\<lparr>page := alice_page,
      history := [Get ''https://www.linkedin.com/in/alice'', MoveClick (el 2 Visible),
                  GetCookies]\<rparr>"
  have handle: "browser logged_in = Some (on_page feed_page)"
    by (simp add: logged_in_def)
  have click: "perform ?a (MoveClick (el 2 Visible)) = (None, ?a3)"
    by (simp add: perform_eq site_def)
  have absent: "located (page ?a3) XPATH send_now 5 = None"
    using alice_no_confirmation by simp
  have read: "perform ?a3 GetCookies = (None, ?a5)"
    by (simp add: perform_eq site_def)
  have saved: "cookies (page ?a5) = [(''li_at'', ''t0k3n'')]"
    by (simp add: alice_page_def page_of_def)
  have found: "findConnectBtn ?a = (Inr (el 2 Visible), ?a)"
    by (simp add: alice_found)
  have first: "sendConnect logged_in alice_request =
       (Inr (''ok'', ''Connection request sent''),
        logged_in\<lparr>browser := Some ?a5, cookie_file := Some [(''li_at'', ''t0k3n'')]\<rparr>)"
    using optional_confirmation_is_swallowed [OF handle alice_nav,
        of "el 2 Visible" ?a ?a3 ?a5] found click absent read saved
    by simp
  have second: "sendConnect logged_in carol_request =
       (Inl (HTTPException 400 ''Couldn't send connection request''),
        logged_in\<lparr>browser := Some ?c\<rparr>)"
    using optional_confirmation_is_swallowed [OF handle carol_nav,
        of _ ?c _ _ _ _ _ "HTTPException 404 ''Connect button not found''"] carol_missing
    by simp
  have held: "browser deaf_session = Some deaf" and nofile: "cookie_file deaf_session = None"
    by (simp_all add: deaf_session_def)
  have found': "findConnectBtn ?f = (Inr (el 2 Visible), ?f)"
    by (simp add: alice_found)
  have click': "perform ?f (MoveClick (el 2 Visible)) = (None, ?f3)"
    by (simp add: perform_eq deaf_def site_def)
  have confirm': "confirm_send ?f3 = ?f3"
    using alice_no_confirmation by (simp add: confirm_send_absent)
  have read': "perform (confirm_send ?f3) GetCookies =
      (Some (WebDriverException ''disconnected''), ?f5)"
    by (subst confirm') (simp add: perform_eq deaf_def)
  have third: "sendConnect deaf_session alice_request =
       (Inl (HTTPException 400 ''Couldn't send connection request''),
        deaf_session\<lparr>browser := Some ?f5\<rparr>)"
    using optional_confirmation_is_swallowed [OF held deaf_nav,
        of "el 2 Visible" ?f ?f3 ?f5 _ _ _ "WebDriverException ''disconnected''"]
      found' click' read'
    by simp
  from handle alice_no_confirmation first second held third nofile show ?thesis by simp
qed

lemma shutdown_none: "browser s = None \<Longrightarrow> shutdown s = (Inr (), s)"
  by (simp add: shutdown_def)

lemma shutdown_quit:
  "browser s = Some d \<Longrightarrow> fst (respond d (page d) Quit) = None \<Longrightarrow>
   shutdown s = (Inr (), s\<lparr>browser := None, processes := processes s - 1, cookie_file := None\<rparr>)"
  by (simp add: shutdown_def perform_eq)

lemma shutdown_raises:
  "browser s = Some d \<Longrightarrow> fst (respond d (page d) Quit) = Some x \<Longrightarrow>
   shutdown s = (Inl x, s\<lparr>browser := Some (snd (perform d Quit))\<rparr>)"
  by (simp add: shutdown_def perform_eq)

text \<open>
  C9, as the code has it. Close with no browser held is a success that changes
  nothing, the cookie file included. Close with a browser whose \<^verbatim>\<open>quit\<close> raises
  nothing is a success that drops the handle and deletes the cookie file. When
  \<^verbatim>\<open>quit\<close> raises, Close raises \<open>500 Couldn't close the browser\<close> and keeps both.
\<close>

theorem close_outcomes:
  "(browser s = None \<longrightarrow> closeBrowser s = (Inr (''ok'', ''Browser session closed''), s))
   \<and> (browser s = Some d \<and> fst (respond d (page d) Quit) = None \<longrightarrow>
        fst (closeBrowser s) = Inr (''ok'', ''Browser session closed'') \<and>
        browser (snd (closeBrowser s)) = None \<and>
        cookie_file (snd (closeBrowser s)) = None)
   \<and> (browser s = Some d \<and> fst (respond d (page d) Quit) = Some x \<longrightarrow>
        fst (closeBrowser s) = Inl (HTTPException 500 ''Couldn't close the browser'') \<and>
        browser (snd (closeBrowser s)) \<noteq> None \<and>
        cookie_file (snd (closeBrowser s)) = cookie_file s)"
  using shutdown_none [of s] shutdown_quit [of s d] shutdown_raises [of s d x]
  by (auto simp: closeBrowser_def)

text \<open>
  The three cases: nothing to close, a browser that quits, a browser that does not.
\<close>

theorem close_outcomes_witness:
  "browser logged_out = None
   \<and> closeBrowser logged_out = (Inr (''ok'', ''Browser session closed''), logged_out)
   \<and> browser logged_in = Some (on_page feed_page)
   \<and> fst (respond (on_page feed_page) (page (on_page feed_page)) Quit) = None
   \<and> fst (closeBrowser logged_in) = Inr (''ok'', ''Browser session closed'')
   \<and> browser (snd (closeBrowser logged_in)) = None
   \<and> cookie_file (snd (closeBrowser logged_in)) = None
   \<and> browser stuck_session = Some stuck
   \<and> fst (respond stuck (page stuck) Quit) = Some (WebDriverException ''no such window'')
   \<and> fst (closeBrowser stuck_session) = Inl (HTTPException 500 ''Couldn't close the browser'')
   \<and> cookie_file (snd (closeBrowser stuck_session)) = Some [(''li_at'', ''t0k3n'')]"
proof -
  have a: "browser logged_out = None" by (simp add: logged_out_def)
  have b: "browser logged_in = Some (on_page feed_page)" by (simp add: logged_in_def)
  have q: "fst (respond (on_page feed_page) (page (on_page feed_page)) Quit) = None"
    by (simp add: on_page_def site_def)
  have c: "browser stuck_session = Some stuck" by (simp add: stuck_session_def)
  have r: "fst (respond stuck (page stuck) Quit) = Some (WebDriverException ''no such window'')"
    by (simp add: stuck_def)
  have f: "cookie_file stuck_session = Some [(''li_at'', ''t0k3n'')]"
    by (simp add: stuck_session_def)
  from close_outcomes [of logged_out] close_outcomes [of logged_in "on_page feed_page"]
    close_outcomes [of stuck_session stuck "WebDriverException ''no such window''"]
    a b q c r f
  show ?thesis by simp
qed

text \<open>
  C9 as stated fails: with no browser held and a cookie file on disk from an earlier
  run, Close reports success and the file is still there; and with a browser whose
  \<^verbatim>\<open>quit\<close> raises, Close does not succeed.
\<close>

theorem close_leaves_snapshot_counterexample:
  "browser logged_out = None
   \<and> cookie_file logged_out = Some [(''li_at'', ''t0k3n'')]
   \<and> fst (closeBrowser logged_out) = Inr (''ok'', ''Browser session closed'')
   \<and> cookie_file (snd (closeBrowser logged_out)) = Some [(''li_at'', ''t0k3n'')]
   \<and> fst (closeBrowser stuck_session) = Inl (HTTPException 500 ''Couldn't close the browser'')"
  by (simp add: closeBrowser_def shutdown_def logged_out_def stuck_session_def stuck_def
      perform_eq)

lemma saveCookies_handle:
  "processes (snd (saveCookies s)) = processes s \<and>
   (browser (snd (saveCookies s)) = None) = (browser s = None)"
  by (auto simp: saveCookies_def split: option.splits prod.splits)

lemma saveCookies_result:
  "saveCookies s = (r, s') \<Longrightarrow>
   processes s' = processes s \<and> (browser s' = None) = (browser s = None)"
  using saveCookies_handle [of s] by simp

lemma loadCookies_handle:
  "processes (snd (loadCookies s)) = processes s \<and>
   (browser (snd (loadCookies s)) = None) = (browser s = None)"
  by (auto simp: loadCookies_def split: option.splits prod.splits)

lemma login_steps_handle:
  "processes (snd (login_steps s creds)) = processes s \<and>
   (browser (snd (login_steps s creds)) = None) = (browser s = None)"
proof (cases "browser s")
  case None
  then show ?thesis by (simp add: login_steps_def)
next
  case (Some d)
  obtain e d1 where nav: "perform d (Get login_url) = (e, d1)" by (cases "perform d (Get login_url)")
  let ?s = "s\<lparr>browser := Some d1\<rparr>"
  obtain r s2 where load: "loadCookies ?s = (r, s2)" by (cases "loadCookies ?s")
  have s2: "processes s2 = processes s" "browser s2 \<noteq> None"
    using loadCookies_handle [of ?s] load by simp_all
  show ?thesis
    using Some nav load s2
    by (auto simp: login_steps_def dest!: saveCookies_result
        split: option.splits sum.splits prod.splits)
qed

lemma startBrowser_launches:
  "chrome s \<noteq> None \<Longrightarrow>
   processes (snd (startBrowser s)) = processes s + 1 \<and> browser (snd (startBrowser s)) \<noteq> None"
  by (auto simp: startBrowser_def split: option.splits prod.splits)

lemma startBrowser_fails:
  "chrome s = None \<Longrightarrow> startBrowser s = (Inl (HTTPException 500 ''Couldn't start the browser!''), s)"
  by (simp add: startBrowser_def)

lemma startBrowser_one:
  "one_browser s \<Longrightarrow> browser s = None \<Longrightarrow> one_browser (snd (startBrowser s))"
  using startBrowser_launches [of s] startBrowser_fails [of s]
  by (cases "chrome s") (auto simp: one_browser_def)

lemma doLogin_snd: "snd (doLogin s creds) = snd (doLogin_body s creds)"
  by (simp add: doLogin_def split: prod.splits sum.splits)

lemma doLogin_body_held:
  "browser s \<noteq> None \<Longrightarrow> doLogin_body s creds = login_steps s creds"
  by (auto simp: doLogin_body_def)

lemma doLogin_body_one:
  assumes "one_browser s"
  shows "one_browser (snd (doLogin_body s creds))"
proof (cases "browser s")
  case (Some d)
  then show ?thesis
    using assms login_steps_handle [of s creds]
    by (simp add: doLogin_body_held one_browser_def)
next
  case None
  obtain r s1 where st: "startBrowser s = (r, s1)" by (cases "startBrowser s")
  have one: "one_browser s1" using startBrowser_one [OF assms None] st by simp
  show ?thesis
  proof (cases r)
    case (Inl e)
    with None st one show ?thesis by (simp add: doLogin_body_def)
  next
    case (Inr u)
    with None st have "doLogin_body s creds = login_steps s1 creds"
      by (simp add: doLogin_body_def)
    with one login_steps_handle [of s1 creds] show ?thesis
      by (simp add: one_browser_def)
  qed
qed

lemma sendConnect_snd: "snd (sendConnect s r) = snd (sendConnect_body s r)"
  by (simp add: sendConnect_def split: prod.splits sum.splits)

lemma sendConnect_handle:
  "processes (snd (sendConnect s r)) = processes s \<and>
   (browser (snd (sendConnect s r)) = None) = (browser s = None)"
proof (cases "browser s")
  case None
  then show ?thesis by (simp add: sendConnect_snd sendConnect_body_def)
next
  case (Some d)
  show ?thesis
    using Some
    by (auto simp: sendConnect_snd sendConnect_body_def dest!: saveCookies_result
        split: option.splits sum.splits prod.splits)
qed

lemma checkAndMessage_snd: "snd (checkAndMessage s r) = snd (checkAndMessage_body s r)"
  by (simp add: checkAndMessage_def split: prod.splits sum.splits)

lemma checkAndMessage_handle:
  "processes (snd (checkAndMessage s r)) = processes s \<and>
   (browser (snd (checkAndMessage s r)) = None) = (browser s = None)"
  by (auto simp: checkAndMessage_snd checkAndMessage_body_def
      split: option.splits sum.splits prod.splits bool.splits)

lemma closeBrowser_one: "one_browser s \<Longrightarrow> one_browser (snd (closeBrowser s))"
  by (auto simp: closeBrowser_def shutdown_def one_browser_def
      split: option.splits sum.splits prod.splits)

text \<open>
  C5, as the code has it. The guard is in Login, not in \<^verbatim>\<open>startBrowser\<close>: Login
  starts a browser only when the manager holds none, and \<^verbatim>\<open>startBrowser\<close> itself
  launches a process whenever the launch works, handle or no handle. So, from a state
  where the live browser processes are exactly the one the manager holds, every
  operation leads to such a state again: at most one live process after Login, also
  after a second Login, and a Login that finds a handle launches nothing and keeps one.
\<close>

theorem login_guard_keeps_one_browser:
  assumes "one_browser s"
  shows "one_browser (snd (doLogin s creds))
    \<and> one_browser (snd (sendConnect s rc))
    \<and> one_browser (snd (checkAndMessage s rm))
    \<and> one_browser (snd (closeBrowser s))
    \<and> processes (snd (doLogin s creds)) \<le> 1
    \<and> processes (snd (doLogin (snd (doLogin s creds)) creds')) \<le> 1
    \<and> (browser s \<noteq> None \<longrightarrow>
         processes (snd (doLogin s creds)) = processes s \<and>
         browser (snd (doLogin s creds)) \<noteq> None)
    \<and> (chrome s \<noteq> None \<longrightarrow> processes (snd (startBrowser s)) = processes s + 1)"
proof -
  have login: "one_browser (snd (doLogin s' c))" if "one_browser s'" for s' c
    using doLogin_body_one [OF that] by (simp add: doLogin_snd)
  have le: "processes s' \<le> 1" if "one_browser s'" for s'
    using that by (simp add: one_browser_def split: if_splits)
  have connect: "one_browser (snd (sendConnect s rc))"
    using assms sendConnect_handle [of s rc] by (simp add: one_browser_def)
  have message: "one_browser (snd (checkAndMessage s rm))"
    using assms checkAndMessage_handle [of s rm] by (simp add: one_browser_def)
  have held: "processes (snd (doLogin s creds)) = processes s \<and>
         browser (snd (doLogin s creds)) \<noteq> None" if "browser s \<noteq> None"
    using that login_steps_handle [of s creds] by (simp add: doLogin_snd doLogin_body_held)
  from login [OF assms] login [OF login [OF assms]] le [OF login [OF assms]]
    le [OF login [OF login [OF assms]]] connect message closeBrowser_one [OF assms] held
    startBrowser_launches [of s]
  show ?thesis by blast
qed

text \<open>
  Login twice from the logged-out state: one live process after the first and after
  the second call.
\<close>

theorem login_guard_keeps_one_browser_witness:
  "one_browser logged_out
   \<and> processes logged_out = 0
   \<and> processes (snd (doLogin logged_out \<lparr>email = ''a@x.com'', passwd = ''pw''\<rparr>)) = 1
   \<and> processes (snd (doLogin (snd (doLogin logged_out \<lparr>email = ''a@x.com'', passwd = ''pw''\<rparr>))
        \<lparr>email = ''a@x.com'', passwd = ''pw''\<rparr>)) = 1
   \<and> one_browser logged_in
   \<and> browser logged_in \<noteq> None
   \<and> chrome logged_in \<noteq> None
   \<and> processes (snd (doLogin logged_in \<lparr>email = ''a@x.com'', passwd = ''pw''\<rparr>)) = 1
   \<and> processes (snd (startBrowser logged_in)) = 2"
proof -
  let ?c = "\<lparr>email = ''a@x.com'', passwd = ''pw''\<rparr>"
  have out: "one_browser logged_out" "processes logged_out = 0" "browser logged_out = None"
    "chrome logged_out \<noteq> None"
    by (simp_all add: one_browser_def logged_out_def)
  have inn: "one_browser logged_in" "browser logged_in \<noteq> None" "chrome logged_in \<noteq> None"
    "processes logged_in = 1"
    by (simp_all add: one_browser_def logged_in_def)
  have started: "browser (snd (doLogin logged_out ?c)) \<noteq> None"
    using startBrowser_launches [OF out(4)] out(3) login_steps_handle [of "snd (startBrowser logged_out)" ?c]
    by (cases "startBrowser logged_out")
      (auto simp: doLogin_snd doLogin_body_def split: sum.splits)
  note a = login_guard_keeps_one_browser [OF out(1), of ?c _ _ ?c]
  note b = login_guard_keeps_one_browser [OF inn(1), of ?c _ _ ?c]
  have first: "processes (snd (doLogin logged_out ?c)) = 1"
    using a started by (simp add: one_browser_def)
  have "browser (snd (doLogin (snd (doLogin logged_out ?c)) ?c)) \<noteq> None"
    using login_guard_keeps_one_browser [of "snd (doLogin logged_out ?c)" ?c _ _ ?c] a started
    by simp
  then have second: "processes (snd (doLogin (snd (doLogin logged_out ?c)) ?c)) = 1"
    using login_guard_keeps_one_browser [of "snd (doLogin logged_out ?c)" ?c _ _ ?c] a
    by (simp add: one_browser_def)
  from first second out inn b show ?thesis by simp
qed

text \<open>
  C5 as stated fails: \<^verbatim>\<open>startBrowser\<close> called while the manager holds a browser
  launches a second one and replaces the handle, the first process still running.
\<close>

theorem start_launches_second_browser_counterexample:
  "browser logged_in = Some (on_page feed_page)
   \<and> processes logged_in = 1
   \<and> fst (startBrowser logged_in) = Inr ()
   \<and> processes (snd (startBrowser logged_in)) = 2
   \<and> browser (snd (startBrowser logged_in)) =
       Some \<lparr>page = blank_page, respond = site, history = [ExecuteCdp]\<rparr>"
  by (simp add: startBrowser_def logged_in_def perform_eq on_page_def site_def)

end
